theory Spec2Isabelle
  imports Complex_Main
begin

section \<open>Numbers, strings and validation\<close>

text \<open>
  Python floats are modelled by exact rationals: every arithmetic operation of the
  strategies (subtraction, division, multiplication by a small integer, comparison) is
  the exact one, and \<open>round(x, 2)\<close> is rounding to the nearest hundredth with ties to the
  even hundredth, which is what Python's correctly rounded \<open>round\<close> computes on the
  exact value of its argument. Strings are ASCII.
\<close>

definition py_round2 :: "rat \<Rightarrow> rat" where
  "py_round2 x =
     (let y = x * 100; f = \<lfloor>y\<rfloor>; d = y - of_int f
      in (if d < 1 / 2 then of_int f
          else if 1 / 2 < d then of_int (f + 1)
          else if even f then of_int f else of_int (f + 1)) / 100)"

definition upper_char :: "char \<Rightarrow> char" where
  "upper_char c =
     (case map_of (zip ''abcdefghijklmnopqrstuvwxyz'' ''ABCDEFGHIJKLMNOPQRSTUVWXYZ'') c of
        Some u \<Rightarrow> u
      | None \<Rightarrow> c)"

definition upper :: "string \<Rightarrow> string" where
  "upper s = map upper_char s"

definition is_lower_char :: "char \<Rightarrow> bool" where
  "is_lower_char c = (c \<in> set ''abcdefghijklmnopqrstuvwxyz'')"

definition is_upper_char :: "char \<Rightarrow> bool" where
  "is_upper_char c = (c \<in> set ''ABCDEFGHIJKLMNOPQRSTUVWXYZ'')"

text \<open>\<open>str.isupper\<close>: no cased character is lowercase and at least one is uppercase.\<close>

definition isupper :: "string \<Rightarrow> bool" where
  "isupper s = ((\<forall>c \<in> set s. \<not> is_lower_char c) \<and> (\<exists>c \<in> set s. is_upper_char c))"

definition endswith :: "string \<Rightarrow> string \<Rightarrow> bool" where
  "endswith s suf = (length suf \<le> length s \<and> drop (length s - length suf) s = suf)"

text \<open>\<open>Config.MIN_QUANTITY\<close> and \<open>Config.MIN_PRICE\<close>.\<close>

definition MIN_QUANTITY :: rat where
  "MIN_QUANTITY = 1 / 1000"

definition MIN_PRICE :: rat where
  "MIN_PRICE = 1 / 100"

definition validate_symbol :: "string \<Rightarrow> bool" where
  "validate_symbol symbol =
     (if symbol = [] then False
      else if \<not> isupper symbol then False
      else if length symbol < 5 then False
      else if \<not> endswith symbol ''USDT'' then False
      else True)"

definition validate_side :: "string \<Rightarrow> bool" where
  "validate_side sd = (upper sd \<in> set [''BUY'', ''SELL''])"

definition validate_quantity :: "rat \<Rightarrow> bool" where
  "validate_quantity qty = (MIN_QUANTITY \<le> qty)"

definition validate_price :: "rat \<Rightarrow> bool" where
  "validate_price p = (MIN_PRICE \<le> p)"

text \<open>\<open>BasicBot.validate_order_params\<close>; the optional price is \<open>None\<close> when not passed.\<close>

definition validate_order_params :: "string \<Rightarrow> string \<Rightarrow> rat \<Rightarrow> rat option \<Rightarrow> bool" where
  "validate_order_params symbol sd qty price_opt =
     (if \<not> validate_symbol symbol then False
      else if \<not> validate_side sd then False
      else if \<not> validate_quantity qty then False
      else (case price_opt of
              None \<Rightarrow> True
            | Some p \<Rightarrow> (if \<not> validate_price p then False else True)))"


section \<open>The exchange client and its effects\<close>

text \<open>
  Exceptions of the strategies: \<open>BinanceAPIException\<close> carries its \<open>code\<close>,
  \<open>ValueError\<close> its message; \<open>OtherException\<close> stands for every other
  \<open>Exception\<close> the client library can raise (a request or transport error).
\<close>

datatype exc =
    BinanceAPIException int
  | ValueError string
  | ZeroDivisionError
  | OtherException

text \<open>The keyword arguments of \<open>client.futures_create_order\<close>; an argument the call
  does not pass is \<open>None\<close>.\<close>

record order_req =
  req_symbol :: string
  req_side :: string
  req_type :: string
  req_quantity :: rat
  req_price :: "rat option"
  req_stopPrice :: "rat option"
  req_timeInForce :: "string option"
  req_positionSide :: string
  req_reduceOnly :: "bool option"

text \<open>
  A numeric field of an order dictionary, as the exchange reports it: absent, a
  non-empty numeric string (always truthy; \<open>float\<close> parses it) or a number (truthy
  when non-zero).
\<close>

datatype num_field = Missing | StrNum rat | FloatNum rat

text \<open>An order dictionary of the exchange: the response of a placement or a status
  query, and an entry of the open-order list.\<close>

record order =
  orderId :: int
  ord_side :: string
  ord_price :: rat
  status :: string
  executedQty :: num_field
  avgPrice :: num_field

text \<open>
  The exchange client is not part of the repository: it is a parameter, a record of the
  five calls the strategies make, each a function of the exchange's state \<open>'w\<close> that
  returns a response or raises, and the exchange's next state.
\<close>

record 'w client =
  futures_symbol_ticker :: "string \<Rightarrow> 'w \<Rightarrow> (exc + rat) \<times> 'w"
  futures_get_open_orders :: "string option \<Rightarrow> 'w \<Rightarrow> (exc + order list) \<times> 'w"
  futures_create_order :: "order_req \<Rightarrow> 'w \<Rightarrow> (exc + order) \<times> 'w"
  futures_get_order :: "string \<Rightarrow> int \<Rightarrow> 'w \<Rightarrow> (exc + order) \<times> 'w"
  futures_cancel_order :: "string \<Rightarrow> int \<Rightarrow> 'w \<Rightarrow> (exc + order) \<times> 'w"

text \<open>What a run does to the outside: every client call and every \<open>time.sleep\<close>, in
  order.\<close>

datatype event =
    Ticker string
  | GetOpenOrders "string option"
  | CreateOrder order_req
  | GetOrder string int
  | CancelOrder string int
  | Sleep rat

type_synonym 'w st = "'w \<times> event list"

definition call_ticker :: "'w client \<Rightarrow> string \<Rightarrow> 'w st \<Rightarrow> (exc + rat) \<times> 'w st" where
  "call_ticker c symbol s =
     (case futures_symbol_ticker c symbol (fst s) of
        (r, w') \<Rightarrow> (r, (w', snd s @ [Ticker symbol])))"

definition call_open_orders ::
  "'w client \<Rightarrow> string option \<Rightarrow> 'w st \<Rightarrow> (exc + order list) \<times> 'w st" where
  "call_open_orders c symbol s =
     (case futures_get_open_orders c symbol (fst s) of
        (r, w') \<Rightarrow> (r, (w', snd s @ [GetOpenOrders symbol])))"

definition call_create_order :: "'w client \<Rightarrow> order_req \<Rightarrow> 'w st \<Rightarrow> (exc + order) \<times> 'w st" where
  "call_create_order c req s =
     (case futures_create_order c req (fst s) of
        (r, w') \<Rightarrow> (r, (w', snd s @ [CreateOrder req])))"

definition call_get_order ::
  "'w client \<Rightarrow> string \<Rightarrow> int \<Rightarrow> 'w st \<Rightarrow> (exc + order) \<times> 'w st" where
  "call_get_order c symbol oid s =
     (case futures_get_order c symbol oid (fst s) of
        (r, w') \<Rightarrow> (r, (w', snd s @ [GetOrder symbol oid])))"

definition call_cancel_order ::
  "'w client \<Rightarrow> string \<Rightarrow> int \<Rightarrow> 'w st \<Rightarrow> (exc + order) \<times> 'w st" where
  "call_cancel_order c symbol oid s =
     (case futures_cancel_order c symbol oid (fst s) of
        (r, w') \<Rightarrow> (r, (w', snd s @ [CancelOrder symbol oid])))"

definition sleep :: "rat \<Rightarrow> 'w st \<Rightarrow> 'w st" where
  "sleep secs s = (fst s, snd s @ [Sleep secs])"

section \<open>BasicBot\<close>

definition invalid_symbol_msg :: string where
  "invalid_symbol_msg = ''Invalid symbol''"

text \<open>\<open>BasicBot.get_current_price\<close>: the symbol is validated before the call; error
  code -1121 of the exchange becomes a \<open>ValueError\<close>, every other exception is raised
  again.\<close>

definition get_current_price :: "'w client \<Rightarrow> string \<Rightarrow> 'w st \<Rightarrow> (exc + rat) \<times> 'w st" where
  "get_current_price c symbol s =
     (if \<not> validate_symbol symbol then (Inl (ValueError invalid_symbol_msg), s)
      else (case call_ticker c (upper symbol) s of
              (Inr price, s') \<Rightarrow> (Inr price, s')
            | (Inl (BinanceAPIException code), s') \<Rightarrow>
                (if code = - 1121 then (Inl (ValueError invalid_symbol_msg), s')
                 else (Inl (BinanceAPIException code), s'))
            | (Inl e, s') \<Rightarrow> (Inl e, s')))"

text \<open>\<open>BasicBot.get_open_orders\<close>: a falsy symbol (\<open>None\<close> or the empty string) asks for
  the orders of every symbol.\<close>

definition get_open_orders ::
  "'w client \<Rightarrow> string option \<Rightarrow> 'w st \<Rightarrow> (exc + order list) \<times> 'w st" where
  "get_open_orders c symbol s =
     (case symbol of
        None \<Rightarrow> call_open_orders c None s
      | Some name \<Rightarrow>
          (if name = [] then call_open_orders c None s
           else call_open_orders c (Some (upper name)) s))"

text \<open>\<open>BasicBot.cancel_order\<close>: every exception of the call is logged and raised again.\<close>

definition cancel_order :: "'w client \<Rightarrow> string \<Rightarrow> int \<Rightarrow> 'w st \<Rightarrow> (exc + order) \<times> 'w st" where
  "cancel_order c symbol order_id s = call_cancel_order c (upper symbol) order_id s"


section \<open>Grid strategy\<close>

text \<open>The request of every grid order: a GTC limit order.\<close>

definition grid_order_req :: "string \<Rightarrow> string \<Rightarrow> rat \<Rightarrow> rat \<Rightarrow> string \<Rightarrow> order_req" where
  "grid_order_req symbol side quantity price position_side =
     \<lparr>req_symbol = symbol, req_side = side, req_type = ''LIMIT'', req_quantity = quantity,
      req_price = Some price, req_stopPrice = None, req_timeInForce = Some ''GTC'',
      req_positionSide = position_side, req_reduceOnly = None\<rparr>"

text \<open>The price of grid level \<open>i\<close>: \<open>round(lower_price + (i * grid_step), 2)\<close>.\<close>

definition grid_price :: "rat \<Rightarrow> rat \<Rightarrow> nat \<Rightarrow> rat" where
  "grid_price lower_price grid_step i = py_round2 (lower_price + of_nat i * grid_step)"

text \<open>\<open>range(n)\<close> of a Python int.\<close>

definition py_range :: "int \<Rightarrow> nat list" where
  "py_range n = [0..<nat n]"

text \<open>
  The loop of \<open>create_grid_orders\<close> over the levels still to visit. A
  \<open>BinanceAPIException\<close> of a placement is logged and the level skipped; any other
  exception leaves the loop and is raised again by the outer handler. The rate-limit
  sleep follows a successful placement only.
\<close>

fun create_grid_loop ::
  "'w client \<Rightarrow> string \<Rightarrow> rat \<Rightarrow> string \<Rightarrow> rat \<Rightarrow> rat \<Rightarrow> rat \<Rightarrow> nat list \<Rightarrow>
   order list \<Rightarrow> order list \<Rightarrow> 'w st \<Rightarrow> (exc + order list \<times> order list) \<times> 'w st" where
  "create_grid_loop c symbol quantity_per_grid position_side lower_price grid_step
       current_price [] buy_orders sell_orders s = (Inr (buy_orders, sell_orders), s)"
| "create_grid_loop c symbol quantity_per_grid position_side lower_price grid_step
       current_price (i # rest) buy_orders sell_orders s =
     (let gp = grid_price lower_price grid_step i in
      if gp < current_price then
        (case call_create_order c
                (grid_order_req symbol ''BUY'' quantity_per_grid gp position_side) s of
           (Inr buy_order, s') \<Rightarrow>
             create_grid_loop c symbol quantity_per_grid position_side lower_price grid_step
               current_price rest (buy_orders @ [buy_order]) sell_orders (sleep (1 / 10) s')
         | (Inl (BinanceAPIException code), s') \<Rightarrow>
             create_grid_loop c symbol quantity_per_grid position_side lower_price grid_step
               current_price rest buy_orders sell_orders s'
         | (Inl e, s') \<Rightarrow> (Inl e, s'))
      else if current_price < gp then
        (case call_create_order c
                (grid_order_req symbol ''SELL'' quantity_per_grid gp position_side) s of
           (Inr sell_order, s') \<Rightarrow>
             create_grid_loop c symbol quantity_per_grid position_side lower_price grid_step
               current_price rest buy_orders (sell_orders @ [sell_order]) (sleep (1 / 10) s')
         | (Inl (BinanceAPIException code), s') \<Rightarrow>
             create_grid_loop c symbol quantity_per_grid position_side lower_price grid_step
               current_price rest buy_orders sell_orders s'
         | (Inl e, s') \<Rightarrow> (Inl e, s'))
      else
        create_grid_loop c symbol quantity_per_grid position_side lower_price grid_step
          current_price rest buy_orders sell_orders s)"

text \<open>\<open>GridBot.create_grid_orders\<close>.\<close>

definition create_grid_orders ::
  "'w client \<Rightarrow> string \<Rightarrow> rat \<Rightarrow> rat \<Rightarrow> int \<Rightarrow> rat \<Rightarrow> string \<Rightarrow> 'w st \<Rightarrow>
   (exc + order list \<times> order list) \<times> 'w st" where
  "create_grid_orders c symbol lower_price upper_price grid_levels quantity_per_grid
       position_side s =
     (if upper_price \<le> lower_price then
        (Inl (ValueError ''Lower price must be less than upper price''), s)
      else if grid_levels < 2 then (Inl (ValueError ''Grid levels must be at least 2''), s)
      else if \<not> validate_order_params symbol ''BUY'' quantity_per_grid (Some lower_price)
        then (Inl (ValueError ''Invalid order parameters''), s)
      else
        (let price_range = upper_price - lower_price;
             grid_step = price_range / of_int (grid_levels - 1)
         in case get_current_price c (upper symbol) s of
              (Inl e, s') \<Rightarrow> (Inl e, s')
            | (Inr current_price, s') \<Rightarrow>
                create_grid_loop c (upper symbol) quantity_per_grid (upper position_side)
                  lower_price grid_step current_price (py_range grid_levels) [] [] s'))"


text \<open>
  A Python set of prices is a duplicate-free list, in the order of first insertion;
  \<open>set_add\<close> is \<open>set.add\<close>. Python leaves the iteration order of a set open: the
  model visits the elements in this order.
\<close>

definition set_add :: "rat \<Rightarrow> rat list \<Rightarrow> rat list" where
  "set_add x xs = (if x \<in> set xs then xs else xs @ [x])"

text \<open>The loop of \<open>monitor_and_rebalance_grid\<close> that fills \<open>expected_buy_prices\<close> and
  \<open>expected_sell_prices\<close>.\<close>

fun expected_prices ::
  "rat \<Rightarrow> rat \<Rightarrow> rat \<Rightarrow> nat list \<Rightarrow> rat list \<Rightarrow> rat list \<Rightarrow> rat list \<times> rat list" where
  "expected_prices lower_price grid_step current_price [] expected_buy_prices
       expected_sell_prices = (expected_buy_prices, expected_sell_prices)"
| "expected_prices lower_price grid_step current_price (i # rest) expected_buy_prices
       expected_sell_prices =
     (let gp = grid_price lower_price grid_step i in
      if gp < current_price then
        expected_prices lower_price grid_step current_price rest
          (set_add gp expected_buy_prices) expected_sell_prices
      else if current_price < gp then
        expected_prices lower_price grid_step current_price rest
          expected_buy_prices (set_add gp expected_sell_prices)
      else
        expected_prices lower_price grid_step current_price rest
          expected_buy_prices expected_sell_prices)"

text \<open>\<open>{round(float(o['price']), 2) for o in orders}\<close>.\<close>

definition open_prices :: "order list \<Rightarrow> rat set" where
  "open_prices orders = set (map (\<lambda>ord. py_round2 (ord_price ord)) orders)"

text \<open>\<open>expected - open\<close>: the expected prices with no open order.\<close>

definition missing_prices :: "rat list \<Rightarrow> rat set \<Rightarrow> rat list" where
  "missing_prices expected opened = filter (\<lambda>p. p \<notin> opened) expected"

text \<open>
  The replacement loop over the missing prices of one side. A \<open>BinanceAPIException\<close>
  is logged and the price skipped; any other exception leaves the monitor through its
  outer handler. The position side of a replacement is the literal \<open>'BOTH'\<close>.
\<close>

fun replace_orders ::
  "'w client \<Rightarrow> string \<Rightarrow> string \<Rightarrow> rat \<Rightarrow> rat list \<Rightarrow> 'w st \<Rightarrow> (exc + unit) \<times> 'w st" where
  "replace_orders c symbol side quantity_per_grid [] s = (Inr (), s)"
| "replace_orders c symbol side quantity_per_grid (price # rest) s =
     (case call_create_order c
             (grid_order_req symbol side quantity_per_grid price ''BOTH'') s of
        (Inr ord, s') \<Rightarrow>
          replace_orders c symbol side quantity_per_grid rest (sleep (1 / 10) s')
      | (Inl (BinanceAPIException code), s') \<Rightarrow>
          replace_orders c symbol side quantity_per_grid rest s'
      | (Inl e, s') \<Rightarrow> (Inl e, s'))"

text \<open>The missing buy and sell prices of one cycle, from the current price and the
  open orders.\<close>

definition missing_of_cycle ::
  "rat \<Rightarrow> rat \<Rightarrow> int \<Rightarrow> rat \<Rightarrow> order list \<Rightarrow> rat list \<times> rat list" where
  "missing_of_cycle lower_price upper_price grid_levels current_price open_orders =
     (let open_buy_orders = filter (\<lambda>ord. ord_side ord = ''BUY'') open_orders;
          open_sell_orders = filter (\<lambda>ord. ord_side ord = ''SELL'') open_orders;
          grid_step = (upper_price - lower_price) / of_int (grid_levels - 1);
          expected = expected_prices lower_price grid_step current_price
                       (py_range grid_levels) [] []
      in (missing_prices (fst expected) (open_prices open_buy_orders),
          missing_prices (snd expected) (open_prices open_sell_orders)))"

text \<open>
  One iteration of the monitor's \<open>while\<close> loop, up to its closing sleep. The price
  fetch and the open-order fetch are not inside any handler of the loop body: their
  exception leaves the iteration and the loop. Dividing by \<open>grid_levels - 1 = 0\<close>
  raises.
\<close>

definition monitor_cycle ::
  "'w client \<Rightarrow> string \<Rightarrow> rat \<Rightarrow> rat \<Rightarrow> int \<Rightarrow> rat \<Rightarrow> 'w st \<Rightarrow> (exc + unit) \<times> 'w st" where
  "monitor_cycle c symbol lower_price upper_price grid_levels quantity_per_grid s =
     (case get_current_price c symbol s of
        (Inl e, s1) \<Rightarrow> (Inl e, s1)
      | (Inr current_price, s1) \<Rightarrow>
          (case get_open_orders c (Some symbol) s1 of
             (Inl e, s2) \<Rightarrow> (Inl e, s2)
           | (Inr open_orders, s2) \<Rightarrow>
               (if grid_levels - 1 = 0 then (Inl ZeroDivisionError, s2)
                else
                  (let missing = missing_of_cycle lower_price upper_price grid_levels
                                   current_price open_orders
                   in case replace_orders c symbol ''BUY'' quantity_per_grid (fst missing) s2 of
                        (Inl e, s3) \<Rightarrow> (Inl e, s3)
                      | (Inr u, s3) \<Rightarrow>
                          replace_orders c symbol ''SELL'' quantity_per_grid
                            (snd missing) s3))))"

text \<open>The \<open>while iteration < max_iterations\<close> loop: an exception of an iteration ends
  the loop and is raised again by the outer handler.\<close>

function monitor_loop ::
  "'w client \<Rightarrow> string \<Rightarrow> rat \<Rightarrow> rat \<Rightarrow> int \<Rightarrow> rat \<Rightarrow> int \<Rightarrow> int \<Rightarrow> int \<Rightarrow> 'w st \<Rightarrow>
   (exc + unit) \<times> 'w st" where
  "monitor_loop c symbol lower_price upper_price grid_levels quantity_per_grid
       check_interval max_iterations iteration s =
     (if iteration < max_iterations then
        (case monitor_cycle c symbol lower_price upper_price grid_levels
                quantity_per_grid s of
           (Inl e, s') \<Rightarrow> (Inl e, s')
         | (Inr u, s') \<Rightarrow>
             monitor_loop c symbol lower_price upper_price grid_levels quantity_per_grid
               check_interval max_iterations (iteration + 1)
               (sleep (of_int check_interval) s'))
      else (Inr (), s))"
  by pat_completeness auto
termination
  by (relation "measure (\<lambda>(c, symbol, lower_price, upper_price, grid_levels,
        quantity_per_grid, check_interval, max_iterations, iteration, s).
        nat (max_iterations - iteration))") auto

declare monitor_loop.simps [simp del]

text \<open>\<open>GridBot.monitor_and_rebalance_grid\<close>.\<close>

definition monitor_and_rebalance_grid ::
  "'w client \<Rightarrow> string \<Rightarrow> rat \<Rightarrow> rat \<Rightarrow> int \<Rightarrow> rat \<Rightarrow> int \<Rightarrow> int \<Rightarrow> 'w st \<Rightarrow>
   (exc + unit) \<times> 'w st" where
  "monitor_and_rebalance_grid c symbol lower_price upper_price grid_levels
       quantity_per_grid check_interval max_iterations s =
     monitor_loop c (upper symbol) lower_price upper_price grid_levels quantity_per_grid
       check_interval max_iterations 0 s"

section \<open>TWAP strategy\<close>

text \<open>The two placement requests of a slice: a market order, or a GTC limit order at
  the rounded limit price.\<close>

definition twap_market_req :: "string \<Rightarrow> string \<Rightarrow> rat \<Rightarrow> string \<Rightarrow> order_req" where
  "twap_market_req symbol side order_size position_side =
     \<lparr>req_symbol = symbol, req_side = side, req_type = ''MARKET'', req_quantity = order_size,
      req_price = None, req_stopPrice = None, req_timeInForce = None,
      req_positionSide = position_side, req_reduceOnly = None\<rparr>"

definition twap_limit_req :: "string \<Rightarrow> string \<Rightarrow> rat \<Rightarrow> rat \<Rightarrow> string \<Rightarrow> order_req" where
  "twap_limit_req symbol side order_size limit_price position_side =
     \<lparr>req_symbol = symbol, req_side = side, req_type = ''LIMIT'', req_quantity = order_size,
      req_price = Some (py_round2 limit_price), req_stopPrice = None,
      req_timeInForce = Some ''GTC'', req_positionSide = position_side,
      req_reduceOnly = None\<rparr>"

text \<open>The inner \<open>try\<close> block of one slice, up to \<open>executed_orders.append(order)\<close>: the
  price fetch, then the placement.\<close>

definition twap_slice ::
  "'w client \<Rightarrow> string \<Rightarrow> string \<Rightarrow> rat \<Rightarrow> string \<Rightarrow> bool \<Rightarrow> rat \<Rightarrow> 'w st \<Rightarrow>
   (exc + order) \<times> 'w st" where
  "twap_slice c symbol side order_size position_side use_limit limit_offset_pct s =
     (case get_current_price c symbol s of
        (Inl e, s1) \<Rightarrow> (Inl e, s1)
      | (Inr current_price, s1) \<Rightarrow>
          (if use_limit then
             (let limit_price =
                    (if side = ''BUY'' then current_price * (1 + limit_offset_pct / 100)
                     else current_price * (1 - limit_offset_pct / 100))
              in call_create_order c
                   (twap_limit_req symbol side order_size limit_price position_side) s1)
           else call_create_order c
                  (twap_market_req symbol side order_size position_side) s1))"

text \<open>
  The \<open>for i in range(num_orders)\<close> loop. A \<open>BinanceAPIException\<close> of the slice is
  logged and the loop continues with the next slice: nothing is appended to
  \<open>executed_orders\<close> and the wait is skipped. Any other exception leaves the loop. After
  a successful slice other than the last the loop sleeps \<open>interval_seconds\<close>.
\<close>

fun twap_loop ::
  "'w client \<Rightarrow> string \<Rightarrow> string \<Rightarrow> rat \<Rightarrow> rat \<Rightarrow> int \<Rightarrow> string \<Rightarrow> bool \<Rightarrow> rat \<Rightarrow>
   nat list \<Rightarrow> order list \<Rightarrow> 'w st \<Rightarrow> (exc + order list) \<times> 'w st" where
  "twap_loop c symbol side order_size interval_seconds num_orders position_side use_limit
       limit_offset_pct [] executed_orders s = (Inr executed_orders, s)"
| "twap_loop c symbol side order_size interval_seconds num_orders position_side use_limit
       limit_offset_pct (i # rest) executed_orders s =
     (case twap_slice c symbol side order_size position_side use_limit limit_offset_pct s of
        (Inr ord, s1) \<Rightarrow>
          twap_loop c symbol side order_size interval_seconds num_orders position_side
            use_limit limit_offset_pct rest (executed_orders @ [ord])
            (if int i < num_orders - 1 then sleep interval_seconds s1 else s1)
      | (Inl (BinanceAPIException code), s1) \<Rightarrow>
          twap_loop c symbol side order_size interval_seconds num_orders position_side
            use_limit limit_offset_pct rest executed_orders s1
      | (Inl e, s1) \<Rightarrow> (Inl e, s1))"

text \<open>\<open>TWAPBot.execute_twap\<close>; the statistics it logs before returning are left out.\<close>

definition execute_twap ::
  "'w client \<Rightarrow> string \<Rightarrow> string \<Rightarrow> rat \<Rightarrow> int \<Rightarrow> int \<Rightarrow> string \<Rightarrow> bool \<Rightarrow> rat \<Rightarrow> 'w st \<Rightarrow>
   (exc + order list) \<times> 'w st" where
  "execute_twap c symbol side total_quantity duration_minutes num_orders position_side
       use_limit limit_offset_pct s =
     (if \<not> validate_order_params symbol side total_quantity None then
        (Inl (ValueError ''Invalid order parameters''), s)
      else if num_orders < 1 then
        (Inl (ValueError ''Number of orders must be at least 1''), s)
      else if duration_minutes < 1 then
        (Inl (ValueError ''Duration must be at least 1 minute''), s)
      else
        (let order_size = total_quantity / of_int num_orders;
             interval_seconds = of_int (duration_minutes * 60) / of_int num_orders
         in twap_loop c (upper symbol) (upper side) order_size interval_seconds num_orders
              (upper position_side) use_limit limit_offset_pct (py_range num_orders) [] s))"

text \<open>\<open>float(order.get(key, 0))\<close> and the truth value of \<open>order.get(key)\<close>.\<close>

definition float_of_field :: "num_field \<Rightarrow> rat" where
  "float_of_field f = (case f of Missing \<Rightarrow> 0 | StrNum q \<Rightarrow> q | FloatNum q \<Rightarrow> q)"

definition truthy :: "num_field \<Rightarrow> bool" where
  "truthy f = (case f of Missing \<Rightarrow> False | StrNum q \<Rightarrow> True | FloatNum q \<Rightarrow> q \<noteq> 0)"

text \<open>Python's \<open>/\<close> on floats raises on a zero divisor.\<close>

definition py_div :: "rat \<Rightarrow> rat \<Rightarrow> exc + rat" where
  "py_div a b = (if b = 0 then Inl ZeroDivisionError else Inr (a / b))"

text \<open>\<open>min\<close> and \<open>max\<close> of a list, which the summary calls on a non-empty list only.\<close>

definition py_min :: "rat list \<Rightarrow> rat" where
  "py_min xs = fold min (tl xs) (hd xs)"

definition py_max :: "rat list \<Rightarrow> rat" where
  "py_max xs = fold max (tl xs) (hd xs)"

text \<open>\<open>TWAPBot.get_twap_summary\<close>: the dictionary it returns, or the exception of a
  division.\<close>

definition get_twap_summary :: "order list \<Rightarrow> exc + (string \<rightharpoonup> rat)" where
  "get_twap_summary orders =
     (if orders = [] then Inr Map.empty
      else
        (let total_qty = sum_list (map (\<lambda>ord. float_of_field (executedQty ord)) orders);
             total_value =
               sum_list (map (\<lambda>ord. float_of_field (avgPrice ord) *
                                     float_of_field (executedQty ord))
                           (filter (\<lambda>ord. truthy (avgPrice ord)) orders))
         in case (if 0 < total_qty then py_div total_value total_qty else Inr 0) of
              Inl e \<Rightarrow> Inl e
            | Inr avg_price \<Rightarrow>
                (let prices = map (\<lambda>ord. float_of_field (avgPrice ord))
                                (filter (\<lambda>ord. truthy (avgPrice ord)) orders);
                     min_price = (if prices \<noteq> [] then py_min prices else 0);
                     max_price = (if prices \<noteq> [] then py_max prices else 0)
                 in case (if 0 < avg_price then
                            (case py_div (max_price - min_price) avg_price of
                               Inl e \<Rightarrow> Inl e
                             | Inr d \<Rightarrow> Inr (d * 100))
                          else Inr 0) of
                      Inl e \<Rightarrow> Inl e
                    | Inr price_range_pct \<Rightarrow>
                        Inr (map_of
                          [(''total_orders'', of_nat (length orders)),
                           (''total_quantity'', total_qty),
                           (''average_price'', avg_price),
                           (''min_price'', min_price),
                           (''max_price'', max_price),
                           (''price_range_pct'', price_range_pct)]))))"

section \<open>OCO strategy\<close>

text \<open>\<open>OCOOrderBot.place_oco_order\<close>: only the take-profit price is handed to the
  validation; the stop-loss price goes into the \<open>STOP_MARKET\<close> request as it came. An
  exception of either placement is raised again.\<close>

definition take_profit_req :: "string \<Rightarrow> string \<Rightarrow> rat \<Rightarrow> rat \<Rightarrow> string \<Rightarrow> order_req" where
  "take_profit_req symbol side quantity take_profit_price position_side =
     \<lparr>req_symbol = symbol, req_side = side, req_type = ''LIMIT'', req_quantity = quantity,
      req_price = Some take_profit_price, req_stopPrice = None,
      req_timeInForce = Some ''GTC'', req_positionSide = position_side,
      req_reduceOnly = Some True\<rparr>"

definition stop_loss_req :: "string \<Rightarrow> string \<Rightarrow> rat \<Rightarrow> rat \<Rightarrow> string \<Rightarrow> order_req" where
  "stop_loss_req symbol side quantity stop_loss_price position_side =
     \<lparr>req_symbol = symbol, req_side = side, req_type = ''STOP_MARKET'',
      req_quantity = quantity, req_price = None, req_stopPrice = Some stop_loss_price,
      req_timeInForce = None, req_positionSide = position_side,
      req_reduceOnly = Some True\<rparr>"

definition place_oco_order ::
  "'w client \<Rightarrow> string \<Rightarrow> string \<Rightarrow> rat \<Rightarrow> rat \<Rightarrow> rat \<Rightarrow> string \<Rightarrow> 'w st \<Rightarrow>
   (exc + order \<times> order) \<times> 'w st" where
  "place_oco_order c symbol side quantity take_profit_price stop_loss_price position_side s =
     (if \<not> validate_order_params symbol side quantity (Some take_profit_price) then
        (Inl (ValueError ''Invalid order parameters''), s)
      else
        (case get_current_price c (upper symbol) s of
           (Inl e, s1) \<Rightarrow> (Inl e, s1)
         | (Inr current_price, s1) \<Rightarrow>
             (case call_create_order c
                     (take_profit_req (upper symbol) (upper side) quantity take_profit_price
                        (upper position_side)) s1 of
                (Inl e, s2) \<Rightarrow> (Inl e, s2)
              | (Inr tp_order, s2) \<Rightarrow>
                  (case call_create_order c
                          (stop_loss_req (upper symbol) (upper side) quantity stop_loss_price
                             (upper position_side)) (sleep (1 / 10) s2) of
                     (Inl e, s3) \<Rightarrow> (Inl e, s3)
                   | (Inr sl_order, s3) \<Rightarrow> (Inr (tp_order, sl_order), s3)))))"

text \<open>What the \<open>try\<close> block of one check does to the loop: the function returns a
  value, or the loop goes on to its sleep.\<close>

datatype 'a step = Return 'a | Continue

text \<open>
  The \<open>try\<close> block of one check of \<open>monitor_and_cancel_oco\<close>. Its handler catches a
  \<open>BinanceAPIException\<close> of everything inside the block, the two status queries and
  the cancel calls alike, logs it and lets the loop go on; any other exception leaves
  the monitor.
\<close>

definition oco_check ::
  "'w client \<Rightarrow> string \<Rightarrow> int \<Rightarrow> int \<Rightarrow> 'w st \<Rightarrow> (exc + string option step) \<times> 'w st" where
  "oco_check c symbol tp_order_id sl_order_id s =
     (case call_get_order c symbol tp_order_id s of
        (Inl (BinanceAPIException code), s1) \<Rightarrow> (Inr Continue, s1)
      | (Inl e, s1) \<Rightarrow> (Inl e, s1)
      | (Inr tp_order, s1) \<Rightarrow>
          (case call_get_order c symbol sl_order_id s1 of
             (Inl (BinanceAPIException code), s2) \<Rightarrow> (Inr Continue, s2)
           | (Inl e, s2) \<Rightarrow> (Inl e, s2)
           | (Inr sl_order, s2) \<Rightarrow>
               (if status tp_order = ''FILLED'' then
                  (case cancel_order c symbol sl_order_id s2 of
                     (Inl (BinanceAPIException code), s3) \<Rightarrow> (Inr Continue, s3)
                   | (Inl e, s3) \<Rightarrow> (Inl e, s3)
                   | (Inr r, s3) \<Rightarrow> (Inr (Return (Some ''TP'')), s3))
                else if status sl_order = ''FILLED'' then
                  (case cancel_order c symbol tp_order_id s2 of
                     (Inl (BinanceAPIException code), s3) \<Rightarrow> (Inr Continue, s3)
                   | (Inl e, s3) \<Rightarrow> (Inl e, s3)
                   | (Inr r, s3) \<Rightarrow> (Inr (Return (Some ''SL'')), s3))
                else if status tp_order \<in> set [''CANCELED'', ''EXPIRED''] \<and>
                        status sl_order \<in> set [''CANCELED'', ''EXPIRED'']
                  then (Inr (Return None), s2)
                else (Inr Continue, s2))))"

text \<open>The \<open>while checks < max_checks\<close> loop.\<close>

function oco_loop ::
  "'w client \<Rightarrow> string \<Rightarrow> int \<Rightarrow> int \<Rightarrow> int \<Rightarrow> int \<Rightarrow> int \<Rightarrow> 'w st \<Rightarrow>
   (exc + string option) \<times> 'w st" where
  "oco_loop c symbol tp_order_id sl_order_id check_interval max_checks checks s =
     (if checks < max_checks then
        (case oco_check c symbol tp_order_id sl_order_id s of
           (Inl e, s1) \<Rightarrow> (Inl e, s1)
         | (Inr (Return r), s1) \<Rightarrow> (Inr r, s1)
         | (Inr Continue, s1) \<Rightarrow>
             oco_loop c symbol tp_order_id sl_order_id check_interval max_checks
               (checks + 1) (sleep (of_int check_interval) s1))
      else (Inr None, s))"
  by pat_completeness auto
termination
  by (relation "measure (\<lambda>(c, symbol, tp_order_id, sl_order_id, check_interval, max_checks,
        checks, s). nat (max_checks - checks))") auto

declare oco_loop.simps [simp del]

text \<open>\<open>OCOOrderBot.monitor_and_cancel_oco\<close>: \<open>Some ''TP''\<close>, \<open>Some ''SL''\<close> or
  \<open>None\<close>.\<close>

definition monitor_and_cancel_oco ::
  "'w client \<Rightarrow> string \<Rightarrow> int \<Rightarrow> int \<Rightarrow> int \<Rightarrow> int \<Rightarrow> 'w st \<Rightarrow> (exc + string option) \<times> 'w st" where
  "monitor_and_cancel_oco c symbol tp_order_id sl_order_id check_interval max_checks s =
     oco_loop c (upper symbol) tp_order_id sl_order_id check_interval max_checks 0 s"

section \<open>Reading a trace\<close>

fun placement_of :: "event \<Rightarrow> order_req list" where
  "placement_of (CreateOrder req) = [req]"
| "placement_of ev = []"

text \<open>The placement requests of a trace, in order.\<close>

definition placements :: "event list \<Rightarrow> order_req list" where
  "placements tr = concat (map placement_of tr)"

fun cancel_of :: "event \<Rightarrow> int list" where
  "cancel_of (CancelOrder symbol oid) = [oid]"
| "cancel_of ev = []"

text \<open>The order ids of the cancel calls of a trace, in order.\<close>

definition cancels :: "event list \<Rightarrow> int list" where
  "cancels tr = concat (map cancel_of tr)"



fun ticker_of :: "event \<Rightarrow> string list" where
  "ticker_of (Ticker symbol) = [symbol]"
| "ticker_of ev = []"

text \<open>The symbols of the price fetches of a trace, in order.\<close>

definition price_fetches :: "event list \<Rightarrow> string list" where
  "price_fetches tr = concat (map ticker_of tr)"

text \<open>The orders a grid wants at one level for a current price: a buy below the price,
  a sell above it, nothing at the price.\<close>

definition level_requests :: "string \<Rightarrow> rat \<Rightarrow> string \<Rightarrow> rat \<Rightarrow> rat \<Rightarrow> order_req list" where
  "level_requests symbol quantity position_side current_price gp =
     (if gp < current_price then [grid_order_req symbol ''BUY'' quantity gp position_side]
      else if current_price < gp then
        [grid_order_req symbol ''SELL'' quantity gp position_side]
      else [])"

section \<open>Exchanges for the examples\<close>

text \<open>The order dictionary an exchange reports for an accepted request.\<close>

definition placed_order :: "int \<Rightarrow> order_req \<Rightarrow> order" where
  "placed_order n req =
     \<lparr>orderId = n, ord_side = req_side req,
      ord_price = (case req_price req of None \<Rightarrow> 0 | Some p \<Rightarrow> p),
      status = ''NEW'', executedQty = StrNum 0, avgPrice = StrNum 0\<rparr>"

text \<open>
  A paper exchange at a fixed price where nothing ever fills: its state is the list of
  resting orders, every placement is accepted and rests, a cancel removes the order,
  and an unknown order id is an API error.
\<close>

definition paper_exchange :: "rat \<Rightarrow> (order list) client" where
  "paper_exchange p =
     \<lparr>futures_symbol_ticker = (\<lambda>symbol w. (Inr p, w)),
      futures_get_open_orders = (\<lambda>symbol w. (Inr w, w)),
      futures_create_order =
        (\<lambda>req w. (Inr (placed_order (int (length w)) req),
                   w @ [placed_order (int (length w)) req])),
      futures_get_order =
        (\<lambda>symbol oid w.
           (case find (\<lambda>ord. orderId ord = oid) w of
              None \<Rightarrow> Inl (BinanceAPIException (- 2013))
            | Some ord \<Rightarrow> Inr ord, w)),
      futures_cancel_order =
        (\<lambda>symbol oid w.
           (case find (\<lambda>ord. orderId ord = oid) w of
              None \<Rightarrow> Inl (BinanceAPIException (- 2011))
            | Some ord \<Rightarrow> Inr (ord\<lparr>status := ''CANCELED''\<rparr>),
            filter (\<lambda>ord. orderId ord \<noteq> oid) w))\<rparr>"

text \<open>The paper exchange with its price feed down: every ticker call is an API
  error.\<close>

definition ticker_down_exchange :: "(order list) client" where
  "ticker_down_exchange =
     (paper_exchange 45000)
       \<lparr>futures_symbol_ticker := (\<lambda>symbol w. (Inl (BinanceAPIException (- 1003)), w))\<rparr>"

text \<open>
  An exchange that counts the placement calls and rejects those whose number (from 0)
  is in \<open>rejected\<close>; an accepted order is reported filled at the price \<open>p\<close>.
\<close>

definition rejecting_exchange :: "rat \<Rightarrow> nat list \<Rightarrow> nat client" where
  "rejecting_exchange p rejected =
     \<lparr>futures_symbol_ticker = (\<lambda>symbol w. (Inr p, w)),
      futures_get_open_orders = (\<lambda>symbol w. (Inr [], w)),
      futures_create_order =
        (\<lambda>req w.
           (if w \<in> set rejected then Inl (BinanceAPIException (- 2010))
            else Inr ((placed_order (int w) req)
                        \<lparr>status := ''FILLED'', executedQty := StrNum (req_quantity req),
                         avgPrice := StrNum p\<rparr>),
            Suc w)),
      futures_get_order = (\<lambda>symbol oid w. (Inl (BinanceAPIException (- 2013)), w)),
      futures_cancel_order = (\<lambda>symbol oid w. (Inl (BinanceAPIException (- 2011)), w))\<rparr>"

text \<open>
  An exchange on which the take-profit order 1 has filled and the stop-loss order 2 is
  no longer known: the status query of order 1 reports \<open>FILLED\<close>, that of any other
  order \<open>EXPIRED\<close>, and every cancel is rejected as an unknown order. The state counts
  nothing.
\<close>

definition tp_filled_exchange :: "unit client" where
  "tp_filled_exchange =
     \<lparr>futures_symbol_ticker = (\<lambda>symbol w. (Inr 45000, w)),
      futures_get_open_orders = (\<lambda>symbol w. (Inr [], w)),
      futures_create_order = (\<lambda>req w. (Inl (BinanceAPIException (- 2010)), w)),
      futures_get_order =
        (\<lambda>symbol oid w.
           (Inr \<lparr>orderId = oid, ord_side = ''SELL'', ord_price = 46000,
                 status = (if oid = 1 then ''FILLED'' else ''EXPIRED''),
                 executedQty = StrNum 0, avgPrice = StrNum 0\<rparr>, w)),
      futures_cancel_order = (\<lambda>symbol oid w. (Inl (BinanceAPIException (- 2011)), w))\<rparr>"

text \<open>Every placement request of a trace has position side \<open>'BOTH'\<close>.\<close>

definition both_only :: "event list \<Rightarrow> bool" where
  "both_only tr = (\<forall>req \<in> set (placements tr). req_positionSide req = ''BOTH'')"

text \<open>A book of the paper exchange: a five-level grid between 44000 and 46000 created
  with position side \<open>LONG\<close>, whose sell order at 45500 is gone.\<close>

definition long_book :: "order list" where
  "long_book =
     [placed_order 0 (grid_order_req ''BTCUSDT'' ''BUY'' (1 / 100) 44000 ''LONG''),
      placed_order 1 (grid_order_req ''BTCUSDT'' ''BUY'' (1 / 100) 44500 ''LONG''),
      placed_order 2 (grid_order_req ''BTCUSDT'' ''SELL'' (1 / 100) 46000 ''LONG'')]"


text \<open>The book of the paper exchange after a five-level grid between 44000 and 46000
  has been placed around the price 45000.\<close>

definition grid_book :: "order list" where
  "grid_book =
     [placed_order 0 (grid_order_req ''BTCUSDT'' ''BUY'' (1 / 100) 44000 ''BOTH''),
      placed_order 1 (grid_order_req ''BTCUSDT'' ''BUY'' (1 / 100) 44500 ''BOTH''),
      placed_order 2 (grid_order_req ''BTCUSDT'' ''SELL'' (1 / 100) 45500 ''BOTH''),
      placed_order 3 (grid_order_req ''BTCUSDT'' ''SELL'' (1 / 100) 46000 ''BOTH'')]"

text \<open>
  The outcome of every slice the loop of \<open>execute_twap\<close> attempts, in order: the
  response of the slice, or the exception of its price fetch or placement. The states
  are threaded as the loop threads them, and the list ends with the first exception
  that is not a \<open>BinanceAPIException\<close>, where the loop ends.
\<close>

fun slice_outcomes ::
  "'w client \<Rightarrow> string \<Rightarrow> string \<Rightarrow> rat \<Rightarrow> rat \<Rightarrow> int \<Rightarrow> string \<Rightarrow> bool \<Rightarrow> rat \<Rightarrow>
   nat list \<Rightarrow> 'w st \<Rightarrow> (exc + order) list" where
  "slice_outcomes c symbol side order_size interval_seconds num_orders position_side
       use_limit limit_offset_pct [] s = []"
| "slice_outcomes c symbol side order_size interval_seconds num_orders position_side
       use_limit limit_offset_pct (i # rest) s =
     (case twap_slice c symbol side order_size position_side use_limit limit_offset_pct s of
        (Inr ord, s1) \<Rightarrow>
          Inr ord #
          slice_outcomes c symbol side order_size interval_seconds num_orders position_side
            use_limit limit_offset_pct rest
            (if int i < num_orders - 1 then sleep interval_seconds s1 else s1)
      | (Inl (BinanceAPIException code), s1) \<Rightarrow>
          Inl (BinanceAPIException code) #
          slice_outcomes c symbol side order_size interval_seconds num_orders position_side
            use_limit limit_offset_pct rest s1
      | (Inl e, s1) \<Rightarrow> [Inl e])"

text \<open>An outcome the slice handler lets the loop survive: a response, or a
  \<open>BinanceAPIException\<close>.\<close>

fun survivable :: "exc + order \<Rightarrow> bool" where
  "survivable (Inr ord) = True"
| "survivable (Inl (BinanceAPIException code)) = True"
| "survivable (Inl e) = False"

fun success_of :: "exc + order \<Rightarrow> order list" where
  "success_of (Inr ord) = [ord]"
| "success_of (Inl e) = []"

text \<open>The responses among a list of outcomes, in order.\<close>

definition successes :: "(exc + order) list \<Rightarrow> order list" where
  "successes outcomes = concat (map success_of outcomes)"


text \<open>Reading a field of the summary of a ledger: \<open>None\<close> when the summary has no such
  key.\<close>

definition summary_field :: "order list \<Rightarrow> string \<Rightarrow> rat option" where
  "summary_field orders k = (case get_twap_summary orders of Inr m \<Rightarrow> m k | Inl e \<Rightarrow> None)"

text \<open>The total filled quantity of a ledger, as the summary adds it up.\<close>

definition total_filled :: "order list \<Rightarrow> rat" where
  "total_filled orders = sum_list (map (\<lambda>ord. float_of_field (executedQty ord)) orders)"

text \<open>A ledger of two accepted orders of which nothing has filled.\<close>

definition unfilled_ledger :: "order list" where
  "unfilled_ledger =
     [placed_order 0 (twap_limit_req ''BTCUSDT'' ''BUY'' (1 / 100) 44000 ''BOTH''),
      placed_order 1 (twap_limit_req ''BTCUSDT'' ''BUY'' (1 / 100) 44000 ''BOTH'')]"

section \<open>Traces of the client calls\<close>

lemma placements_append: "placements (xs @ ys) = placements xs @ placements ys"
  by (simp add: placements_def)

lemma placements_simps:
  "placements [] = []" "placements (ev # tr) = placement_of ev @ placements tr"
  by (simp_all add: placements_def)

lemma trace_call_create_order:
  "call_create_order c req s = (r, s') \<Longrightarrow> snd s' = snd s @ [CreateOrder req]"
  by (auto simp: call_create_order_def split: prod.splits)

lemma trace_sleep: "snd (sleep d s) = snd s @ [Sleep d]"
  by (simp add: sleep_def)

lemma get_current_price_placements:
  "get_current_price c symbol s = (r, s') \<Longrightarrow> placements (snd s') = placements (snd s)"
  by (auto simp: get_current_price_def call_ticker_def placements_append placements_simps
      split: if_splits prod.splits sum.splits exc.splits)

text \<open>What one placement inside a skip-and-continue handler leaves behind when the
  run goes on to a result.\<close>

lemma placed_or_skipped:
  assumes "(case call_create_order c req s of
              (Inr ord, s1) \<Rightarrow> K1 ord s1
            | (Inl (BinanceAPIException code), s1) \<Rightarrow> K2 s1
            | (Inl e, s1) \<Rightarrow> (Inl e, s1)) = (Inr res, sf)"
  obtains ord s1 where "call_create_order c req s = (Inr ord, s1)" "K1 ord s1 = (Inr res, sf)"
    | code s1 where "call_create_order c req s = (Inl (BinanceAPIException code), s1)"
        "K2 s1 = (Inr res, sf)"
  using assms by (auto split: prod.splits sum.splits exc.splits)

section \<open>Grid: the side of every level\<close>

lemma create_grid_loop_placements:
  "create_grid_loop c symbol q ps lower step cp levels bs ss s = (Inr res, s') \<Longrightarrow>
   placements (snd s') = placements (snd s) @
     concat (map (\<lambda>i. level_requests symbol q ps cp (grid_price lower step i)) levels)"
proof (induction levels arbitrary: bs ss s)
  case Nil
  then show ?case by simp
next
  case (Cons i rest)
  let ?gp = "grid_price lower step i"
  consider (buy) "?gp < cp" | (sell) "\<not> ?gp < cp" "cp < ?gp" | (skip) "\<not> ?gp < cp" "\<not> cp < ?gp"
    by blast
  then show ?case
  proof cases
    case buy
    with Cons.prems
    have "(case call_create_order c (grid_order_req symbol ''BUY'' q ?gp ps) s of
             (Inr ord, s1) \<Rightarrow>
               create_grid_loop c symbol q ps lower step cp rest (bs @ [ord]) ss
                 (sleep (1 / 10) s1)
           | (Inl (BinanceAPIException code), s1) \<Rightarrow>
               create_grid_loop c symbol q ps lower step cp rest bs ss s1
           | (Inl e, s1) \<Rightarrow> (Inl e, s1)) = (Inr res, s')"
      by simp
    then show ?thesis
    proof (cases rule: placed_or_skipped)
      case (1 ord s1)
      from Cons.IH [OF 1(2)] trace_call_create_order [OF 1(1)] buy show ?thesis
        by (simp add: trace_sleep placements_append placements_simps level_requests_def)
    next
      case (2 code s1)
      from Cons.IH [OF 2(2)] trace_call_create_order [OF 2(1)] buy show ?thesis
        by (simp add: placements_append placements_simps level_requests_def)
    qed
  next
    case sell
    with Cons.prems
    have "(case call_create_order c (grid_order_req symbol ''SELL'' q ?gp ps) s of
             (Inr ord, s1) \<Rightarrow>
               create_grid_loop c symbol q ps lower step cp rest bs (ss @ [ord])
                 (sleep (1 / 10) s1)
           | (Inl (BinanceAPIException code), s1) \<Rightarrow>
               create_grid_loop c symbol q ps lower step cp rest bs ss s1
           | (Inl e, s1) \<Rightarrow> (Inl e, s1)) = (Inr res, s')"
      by simp
    then show ?thesis
    proof (cases rule: placed_or_skipped)
      case (1 ord s1)
      from Cons.IH [OF 1(2)] trace_call_create_order [OF 1(1)] sell show ?thesis
        by (simp add: trace_sleep placements_append placements_simps level_requests_def)
    next
      case (2 code s1)
      from Cons.IH [OF 2(2)] trace_call_create_order [OF 2(1)] sell show ?thesis
        by (simp add: placements_append placements_simps level_requests_def)
    qed
  next
    case skip
    with Cons.prems
    have "create_grid_loop c symbol q ps lower step cp rest bs ss s = (Inr res, s')"
      by simp
    from Cons.IH [OF this] skip show ?thesis
      by (simp add: level_requests_def)
  qed
qed

lemma create_grid_orders_placements:
  assumes price: "get_current_price c (upper symbol) s = (Inr current_price, s1)"
    and run: "create_grid_orders c symbol lower_price upper_price grid_levels
                quantity_per_grid position_side s = (Inr res, s')"
  shows "placements (snd s') = placements (snd s) @
     concat (map (\<lambda>i. level_requests (upper symbol) quantity_per_grid (upper position_side)
                        current_price
                        (grid_price lower_price
                           ((upper_price - lower_price) / of_int (grid_levels - 1)) i))
               (py_range grid_levels))"
proof -
  from run price
  have "create_grid_loop c (upper symbol) quantity_per_grid (upper position_side)
      lower_price ((upper_price - lower_price) / of_int (grid_levels - 1)) current_price
      (py_range grid_levels) [] [] s1 = (Inr res, s')"
    by (simp add: create_grid_orders_def Let_def split: if_splits)
  from create_grid_loop_placements [OF this] get_current_price_placements [OF price]
  show ?thesis by simp
qed

lemma set_set_add: "set (set_add x xs) = insert x (set xs)"
  by (auto simp: set_add_def)

lemma expected_prices_sets:
  "set (fst (expected_prices lower step cp levels eb es)) =
     set eb \<union> {gp \<in> grid_price lower step ` set levels. gp < cp} \<and>
   set (snd (expected_prices lower step cp levels eb es)) =
     set es \<union> {gp \<in> grid_price lower step ` set levels. cp < gp}"
  by (induction levels arbitrary: eb es) (auto simp: Let_def set_set_add)



lemma scenario_price:
  "get_current_price (paper_exchange 45000) (upper ''BTCUSDT'') ([], []) =
     (Inr 45000, ([], [Ticker ''BTCUSDT'']))"
  by code_simp




section \<open>Grid: the position side of a replacement\<close>

lemma both_only_append: "both_only (xs @ ys) = (both_only xs \<and> both_only ys)"
  by (auto simp: both_only_def placements_append)

lemma both_only_simps:
  "both_only []" "both_only [Sleep d]" "both_only [Ticker sy]" "both_only [GetOpenOrders so]"
  "both_only [CreateOrder req] = (req_positionSide req = ''BOTH'')"
  by (simp_all add: both_only_def placements_simps)

lemma trace_get_current_price:
  "get_current_price c symbol s = (r, s') \<Longrightarrow>
     snd s' = snd s \<or> snd s' = snd s @ [Ticker (upper symbol)]"
  by (auto simp: get_current_price_def call_ticker_def
      split: if_splits prod.splits sum.splits exc.splits)

lemma trace_get_open_orders:
  "get_open_orders c symbol s = (r, s') \<Longrightarrow> \<exists>so. snd s' = snd s @ [GetOpenOrders so]"
  by (auto simp: get_open_orders_def call_open_orders_def
      split: if_splits prod.splits option.splits)

lemma replace_orders_both:
  "replace_orders c symbol side q prices s = (r, s') \<Longrightarrow> both_only (snd s) \<Longrightarrow>
     both_only (snd s')"
proof (induction prices arbitrary: s)
  case Nil
  then show ?case by simp
next
  case (Cons p rest)
  obtain r1 s1 where call:
    "call_create_order c (grid_order_req symbol side q p ''BOTH'') s = (r1, s1)"
    by (cases "call_create_order c (grid_order_req symbol side q p ''BOTH'') s")
  from trace_call_create_order [OF call] Cons.prems(2)
  have b1: "both_only (snd s1)"
    by (simp add: both_only_append both_only_simps grid_order_req_def)
  then have b2: "both_only (snd (sleep (1 / 10) s1))"
    by (simp add: trace_sleep both_only_append both_only_simps)
  from Cons.prems(1) call Cons.IH [OF _ b1] Cons.IH [OF _ b2] b1 show ?case
    by (auto split: sum.splits exc.splits)
qed

lemma monitor_cycle_both:
  assumes "monitor_cycle c symbol lower upper_price levels q s = (r, s')" "both_only (snd s)"
  shows "both_only (snd s')"
proof -
  obtain r1 s1 where p: "get_current_price c symbol s = (r1, s1)"
    by (cases "get_current_price c symbol s")
  from trace_get_current_price [OF p] assms(2) have b1: "both_only (snd s1)"
    by (auto simp: both_only_append both_only_simps)
  obtain r2 s2 where oo: "get_open_orders c (Some symbol) s1 = (r2, s2)"
    by (cases "get_open_orders c (Some symbol) s1")
  from trace_get_open_orders [OF oo] b1 have b2: "both_only (snd s2)"
    by (auto simp: both_only_append both_only_simps)
  from assms(1) p oo b1 b2 show ?thesis
    by (auto simp: monitor_cycle_def Let_def split: sum.splits if_splits prod.splits
        dest: replace_orders_both)
qed

lemma monitor_loop_both:
  "monitor_loop c symbol lower upper_price levels q ci mx it s = (r, s') \<Longrightarrow>
     both_only (snd s) \<Longrightarrow> both_only (snd s')"
proof (induction c symbol lower upper_price levels q ci mx it s rule: monitor_loop.induct)
  case (1 c symbol lower upper_price levels q ci mx it s)
  show ?case
  proof (cases "it < mx")
    case False
    with "1.prems" show ?thesis by (simp add: monitor_loop.simps)
  next
    case True
    obtain rc sc where cyc: "monitor_cycle c symbol lower upper_price levels q s = (rc, sc)"
      by (cases "monitor_cycle c symbol lower upper_price levels q s")
    from monitor_cycle_both [OF cyc "1.prems"(2)] have bc: "both_only (snd sc)" .
    show ?thesis
    proof (cases rc)
      case (Inl e)
      with "1.prems"(1) True cyc bc show ?thesis
        by (simp add: monitor_loop.simps [of c symbol lower upper_price levels q ci mx it s])
    next
      case (Inr u)
      from bc have bs: "both_only (snd (sleep (of_int ci) sc))"
        by (simp add: trace_sleep both_only_append both_only_simps)
      from "1.prems"(1) True cyc Inr
      have "monitor_loop c symbol lower upper_price levels q ci mx (it + 1)
              (sleep (of_int ci) sc) = (r, s')"
        by (simp add: monitor_loop.simps [of c symbol lower upper_price levels q ci mx it s])
      from "1.IH" [OF True cyc [symmetric] Inr this bs] show ?thesis .
    qed
  qed
qed

lemma scenario_create_long:
  "create_grid_orders (paper_exchange 45000) ''BTCUSDT'' 44000 46000 5 (1 / 100) ''long''
     ([], []) =
   (Inr ([placed_order 0 (grid_order_req ''BTCUSDT'' ''BUY'' (1 / 100) 44000 ''LONG''),
          placed_order 1 (grid_order_req ''BTCUSDT'' ''BUY'' (1 / 100) 44500 ''LONG'')],
         [placed_order 2 (grid_order_req ''BTCUSDT'' ''SELL'' (1 / 100) 45500 ''LONG''),
          placed_order 3 (grid_order_req ''BTCUSDT'' ''SELL'' (1 / 100) 46000 ''LONG'')]),
    ([placed_order 0 (grid_order_req ''BTCUSDT'' ''BUY'' (1 / 100) 44000 ''LONG''),
      placed_order 1 (grid_order_req ''BTCUSDT'' ''BUY'' (1 / 100) 44500 ''LONG''),
      placed_order 2 (grid_order_req ''BTCUSDT'' ''SELL'' (1 / 100) 45500 ''LONG''),
      placed_order 3 (grid_order_req ''BTCUSDT'' ''SELL'' (1 / 100) 46000 ''LONG'')],
     [Ticker ''BTCUSDT'',
      CreateOrder (grid_order_req ''BTCUSDT'' ''BUY'' (1 / 100) 44000 ''LONG''),
      Sleep (1 / 10),
      CreateOrder (grid_order_req ''BTCUSDT'' ''BUY'' (1 / 100) 44500 ''LONG''),
      Sleep (1 / 10),
      CreateOrder (grid_order_req ''BTCUSDT'' ''SELL'' (1 / 100) 45500 ''LONG''),
      Sleep (1 / 10),
      CreateOrder (grid_order_req ''BTCUSDT'' ''SELL'' (1 / 100) 46000 ''LONG''),
      Sleep (1 / 10)]))"
  by code_simp

lemma scenario_replace_long:
  "monitor_and_rebalance_grid (paper_exchange 45000) ''BTCUSDT'' 44000 46000 5 (1 / 100) 30 1
     (long_book, []) =
   (Inr (),
    (long_book @
       [placed_order 3 (grid_order_req ''BTCUSDT'' ''SELL'' (1 / 100) 45500 ''BOTH'')],
     [Ticker ''BTCUSDT'', GetOpenOrders (Some ''BTCUSDT''),
      CreateOrder (grid_order_req ''BTCUSDT'' ''SELL'' (1 / 100) 45500 ''BOTH''),
      Sleep (1 / 10), Sleep 30]))"
  by code_simp

text \<open>
  C10. Every placement request a run of \<open>monitor_and_rebalance_grid\<close> sends, whatever
  the exchange answers and however the run ends, has \<open>positionSide = 'BOTH'\<close>; the
  requests of a completed \<open>create_grid_orders\<close> run carry the upper-cased
  \<open>position_side\<close> argument instead.
\<close>

theorem replacement_position_side_both:
  assumes mon: "monitor_and_rebalance_grid c symbol lower_price upper_price grid_levels
                  quantity_per_grid check_interval max_iterations (w, []) = (r, s')"
    and price: "get_current_price c0 (upper symbol0) (w0, []) = (Inr current_price, s1)"
    and run: "create_grid_orders c0 symbol0 lower_price0 upper_price0 grid_levels0
                quantity_per_grid0 position_side (w0, []) = (Inr res, s0)"
  shows "(\<forall>req \<in> set (placements (snd s')). req_positionSide req = ''BOTH'') \<and>
         (\<forall>req \<in> set (placements (snd s0)). req_positionSide req = upper position_side)"
proof
  from mon have "both_only (snd s')"
    unfolding monitor_and_rebalance_grid_def
    by (rule monitor_loop_both) (simp add: both_only_simps)
  then show "\<forall>req \<in> set (placements (snd s')). req_positionSide req = ''BOTH''"
    by (simp add: both_only_def)
next
  from create_grid_orders_placements [OF price run]
  show "\<forall>req \<in> set (placements (snd s0)). req_positionSide req = upper position_side"
    by (auto simp: placements_simps level_requests_def grid_order_req_def split: if_splits)
qed

theorem replacement_position_side_both_witness:
  "list_all (\<lambda>req. req_positionSide req = ''BOTH'')
     (placements (snd (snd (monitor_and_rebalance_grid (paper_exchange 45000) ''BTCUSDT''
        44000 46000 5 (1 / 100) 30 1 (long_book, []))))) \<and>
   length (placements (snd (snd (monitor_and_rebalance_grid (paper_exchange 45000) ''BTCUSDT''
        44000 46000 5 (1 / 100) 30 1 (long_book, []))))) = 1 \<and>
   list_all (\<lambda>req. req_positionSide req = ''LONG'')
     (placements (snd (snd (create_grid_orders (paper_exchange 45000) ''BTCUSDT''
        44000 46000 5 (1 / 100) ''long'' ([], []))))) \<and>
   length (placements (snd (snd (create_grid_orders (paper_exchange 45000) ''BTCUSDT''
        44000 46000 5 (1 / 100) ''long'' ([], []))))) = 4"
proof -
  have up: "upper ''long'' = ''LONG''"
    by (simp add: upper_def upper_char_def)
  note inst = replacement_position_side_both [OF scenario_replace_long scenario_price
      scenario_create_long]
  show ?thesis
    unfolding scenario_replace_long scenario_create_long
    using inst by (simp add: up list_all_iff placements_simps)
qed

section \<open>Grid: a failed fetch\<close>

lemma monitor_cycle_price_error:
  "get_current_price c symbol s = (Inl e, s1) \<Longrightarrow>
     monitor_cycle c symbol lower_price upper_price grid_levels quantity_per_grid s =
       (Inl e, s1)"
  by (simp add: monitor_cycle_def)

lemma monitor_cycle_orders_error:
  "get_current_price c symbol s = (Inr p, s0) \<Longrightarrow>
   get_open_orders c (Some symbol) s0 = (Inl e, s1) \<Longrightarrow>
     monitor_cycle c symbol lower_price upper_price grid_levels quantity_per_grid s =
       (Inl e, s1)"
  by (simp add: monitor_cycle_def)

lemma monitor_loop_cycle_error:
  "iteration < max_iterations \<Longrightarrow>
   monitor_cycle c symbol lower_price upper_price grid_levels quantity_per_grid s =
     (Inl e, s1) \<Longrightarrow>
   monitor_loop c symbol lower_price upper_price grid_levels quantity_per_grid
     check_interval max_iterations iteration s = (Inl e, s1)"
  by (simp add: monitor_loop.simps [of c symbol lower_price upper_price grid_levels
        quantity_per_grid check_interval max_iterations iteration s])

lemma ticker_down_price:
  "get_current_price ticker_down_exchange ''BTCUSDT'' ([], []) =
     (Inl (BinanceAPIException (- 1003)), ([], [Ticker ''BTCUSDT'']))"
  by code_simp

text \<open>
  C2, as the code has it. The price fetch and the open-order fetch of a cycle stand
  outside every handler of the loop body, so an exception of either, in whichever cycle
  it happens, ends the whole loop: the monitor raises that exception in the state the
  failed fetch left, with no later cycle, no retry and no further call.
\<close>

theorem fetch_error_ends_monitoring:
  assumes "iteration < max_iterations"
    and "get_current_price c symbol s = (Inl e, s1) \<or>
         (\<exists>p s0. get_current_price c symbol s = (Inr p, s0) \<and>
                  get_open_orders c (Some symbol) s0 = (Inl e, s1))"
  shows "monitor_loop c symbol lower_price upper_price grid_levels quantity_per_grid
           check_interval max_iterations iteration s = (Inl e, s1)"
  using assms
  by (auto intro!: monitor_loop_cycle_error
      simp: monitor_cycle_price_error monitor_cycle_orders_error)

theorem fetch_error_ends_monitoring_witness:
  "monitor_loop ticker_down_exchange ''BTCUSDT'' 44000 46000 5 (1 / 100) 30 100 1 ([], []) =
     (Inl (BinanceAPIException (- 1003)), ([], [Ticker ''BTCUSDT'']))"
  by (rule fetch_error_ends_monitoring) (simp_all add: ticker_down_price)

text \<open>
  The claim as stated fails: with the price feed down and three cycles allowed, the
  monitor stops in the first cycle after a single price fetch, which it never repeats.
\<close>

theorem fetch_error_not_retried_counterexample:
  "fst (monitor_and_rebalance_grid ticker_down_exchange ''BTCUSDT'' 44000 46000 5 (1 / 100)
          30 3 ([], [])) = Inl (BinanceAPIException (- 1003)) \<and>
   price_fetches (snd (snd (monitor_and_rebalance_grid ticker_down_exchange ''BTCUSDT''
          44000 46000 5 (1 / 100) 30 3 ([], [])))) = [''BTCUSDT'']"
  by code_simp

section \<open>Rounding to the tick\<close>

lemma py_round2_cases:
  obtains k :: int where "py_round2 x = of_int k / 100" "\<bar>of_int k - x * 100\<bar> \<le> 1 / 2"
proof -
  let ?y = "x * 100"
  let ?f = "\<lfloor>?y\<rfloor>"
  have fl: "of_int ?f \<le> ?y" "?y < of_int ?f + 1"
    by linarith+
  consider (lo) "?y - of_int ?f < 1 / 2" | (hi) "1 / 2 < ?y - of_int ?f"
    | (even_tie) "?y - of_int ?f = 1 / 2" "even ?f" | (odd_tie) "?y - of_int ?f = 1 / 2" "odd ?f"
    by fastforce
  then show ?thesis
  proof cases
    case lo
    with fl have "py_round2 x = of_int ?f / 100" "\<bar>of_int ?f - ?y\<bar> \<le> 1 / 2"
      by (simp_all add: py_round2_def Let_def)
    then show ?thesis by (rule that)
  next
    case hi
    with fl have "py_round2 x = of_int (?f + 1) / 100" "\<bar>of_int (?f + 1) - ?y\<bar> \<le> 1 / 2"
      by (simp_all add: py_round2_def Let_def)
    then show ?thesis by (rule that)
  next
    case even_tie
    with fl have "py_round2 x = of_int ?f / 100" "\<bar>of_int ?f - ?y\<bar> \<le> 1 / 2"
      by (simp_all add: py_round2_def Let_def)
    then show ?thesis by (rule that)
  next
    case odd_tie
    with fl have "py_round2 x = of_int (?f + 1) / 100" "\<bar>of_int (?f + 1) - ?y\<bar> \<le> 1 / 2"
      by (simp_all add: py_round2_def Let_def)
    then show ?thesis by (rule that)
  qed
qed


lemma py_round2_of_hundredth: "py_round2 (of_int k / 100) = of_int k / 100"
  by (simp add: py_round2_def Let_def)

lemma py_round2_idem: "py_round2 (py_round2 x) = py_round2 x"
proof -
  obtain k :: int where k: "py_round2 x = of_int k / 100" "\<bar>of_int k - x * 100\<bar> \<le> 1 / 2"
    by (rule py_round2_cases)
  show ?thesis unfolding k(1) by (rule py_round2_of_hundredth)
qed



section \<open>Grid: the price levels\<close>












section \<open>Grid: a second cycle with nothing filled\<close>

lemma open_prices_mono: "set xs \<subseteq> set ys \<Longrightarrow> open_prices (filter P xs) \<subseteq> open_prices (filter P ys)"
  by (auto simp: open_prices_def)

lemma missing_prices_empty:
  "missing_prices expected opened = [] \<longleftrightarrow> set expected \<subseteq> opened"
  by (auto simp: missing_prices_def filter_empty_conv)

lemma set_missing_prices: "set (missing_prices expected opened) = set expected - opened"
  by (auto simp: missing_prices_def)

lemma missing_side_filled:
  assumes sub: "set open1 \<subseteq> set open2"
    and placed: "\<forall>p \<in> set (missing_prices expected (open_prices (filter (\<lambda>ord. ord_side ord = sd) open1))).
       \<exists>ord \<in> set open2. ord_side ord = sd \<and> py_round2 (ord_price ord) = p"
  shows "missing_prices expected (open_prices (filter (\<lambda>ord. ord_side ord = sd) open2)) = []"
proof -
  have "p \<in> open_prices (filter (\<lambda>ord. ord_side ord = sd) open2)" if "p \<in> set expected" for p
  proof (cases "p \<in> open_prices (filter (\<lambda>ord. ord_side ord = sd) open1)")
    case True
    with open_prices_mono [OF sub] show ?thesis by blast
  next
    case False
    with that have "p \<in> set (missing_prices expected (open_prices (filter (\<lambda>ord. ord_side ord = sd) open1)))"
      by (simp add: set_missing_prices)
    with placed obtain ord where "ord \<in> set open2" "ord_side ord = sd" "py_round2 (ord_price ord) = p"
      by blast
    then show ?thesis by (force simp: open_prices_def)
  qed
  then show ?thesis by (auto simp: missing_prices_empty)
qed

lemma missing_of_cycle_filled:
  assumes sub: "set open1 \<subseteq> set open2"
    and buys: "\<forall>p \<in> set (fst (missing_of_cycle l u n cp open1)).
       \<exists>ord \<in> set open2. ord_side ord = ''BUY'' \<and> py_round2 (ord_price ord) = p"
    and sells: "\<forall>p \<in> set (snd (missing_of_cycle l u n cp open1)).
       \<exists>ord \<in> set open2. ord_side ord = ''SELL'' \<and> py_round2 (ord_price ord) = p"
  shows "missing_of_cycle l u n cp open2 = ([], [])"
  using missing_side_filled [OF sub, of _ "''BUY''"] missing_side_filled [OF sub, of _ "''SELL''"]
    buys sells
  by (simp add: missing_of_cycle_def Let_def)

lemma monitor_cycle_nothing_missing:
  assumes price: "get_current_price c symbol s = (Inr cp, s1)"
    and orders: "get_open_orders c (Some symbol) s1 = (Inr open2, s2)"
    and none: "missing_of_cycle l u n cp open2 = ([], [])"
  shows "placements (snd (snd (monitor_cycle c symbol l u n q s))) = placements (snd s)"
proof -
  from trace_get_open_orders [OF orders] have "placements (snd s2) = placements (snd s1)"
    by (auto simp: placements_append placements_simps)
  with get_current_price_placements [OF price] have "placements (snd s2) = placements (snd s)"
    by simp
  with price orders none show ?thesis
    by (simp add: monitor_cycle_def Let_def)
qed

lemma missing_prices_rounded:
  "(p \<in> set (fst (missing_of_cycle l u n cp opened)) \<longrightarrow> py_round2 p = p) \<and>
   (p \<in> set (snd (missing_of_cycle l u n cp opened)) \<longrightarrow> py_round2 p = p)"
  using expected_prices_sets [of l "(u - l) / of_int (n - 1)" cp "py_range n" "[]" "[]"]
  by (auto simp: missing_of_cycle_def Let_def set_missing_prices grid_price_def py_round2_idem)

lemma book_price:
  "get_current_price (paper_exchange 45000) ''BTCUSDT'' (grid_book, []) =
     (Inr 45000, (grid_book, [Ticker ''BTCUSDT'']))"
  by code_simp

lemma book_orders:
  "get_open_orders (paper_exchange 45000) (Some ''BTCUSDT'') (grid_book, [Ticker ''BTCUSDT'']) =
     (Inr grid_book, (grid_book, [Ticker ''BTCUSDT'', GetOpenOrders (Some ''BTCUSDT'')]))"
  by code_simp

lemma book_buys:
  "\<forall>p \<in> set (fst (missing_of_cycle 44000 46000 5 45000 [])).
     \<exists>ord \<in> set grid_book. ord_side ord = ''BUY'' \<and> ord_price ord = p"
  by code_simp

lemma book_sells:
  "\<forall>p \<in> set (snd (missing_of_cycle 44000 46000 5 45000 [])).
     \<exists>ord \<in> set grid_book. ord_side ord = ''SELL'' \<and> ord_price ord = p"
  by code_simp

lemma two_cycles_on_paper:
  "length (placements (snd (snd (monitor_and_rebalance_grid (paper_exchange 45000)
      ''BTCUSDT'' 44000 46000 5 (1 / 100) 30 1 ([], []))))) = 4 \<and>
   length (placements (snd (snd (monitor_and_rebalance_grid (paper_exchange 45000)
      ''BTCUSDT'' 44000 46000 5 (1 / 100) 30 2 ([], []))))) = 4 \<and>
   fst (snd (monitor_and_rebalance_grid (paper_exchange 45000)
      ''BTCUSDT'' 44000 46000 5 (1 / 100) 30 1 ([], []))) = grid_book"
  by code_simp

text \<open>
  C6. Let a cycle see the current price and the open orders \<open>open1\<close>, and let the next
  cycle see the same price and open orders \<open>open2\<close> that still hold every order of
  \<open>open1\<close> and, for every price the first cycle found missing on a side, an order of
  that side reported at that price. Then the next cycle finds nothing missing on either
  side and sends no placement request.
\<close>

theorem reconcile_idempotent:
  assumes sub: "set open1 \<subseteq> set open2"
    and buys: "\<forall>p \<in> set (fst (missing_of_cycle lower_price upper_price grid_levels
                   current_price open1)).
                 \<exists>ord \<in> set open2. ord_side ord = ''BUY'' \<and> ord_price ord = p"
    and sells: "\<forall>p \<in> set (snd (missing_of_cycle lower_price upper_price grid_levels
                    current_price open1)).
                  \<exists>ord \<in> set open2. ord_side ord = ''SELL'' \<and> ord_price ord = p"
    and price: "get_current_price c symbol s = (Inr current_price, s1)"
    and orders: "get_open_orders c (Some symbol) s1 = (Inr open2, s2)"
  shows "missing_of_cycle lower_price upper_price grid_levels current_price open2 = ([], []) \<and>
         placements (snd (snd (monitor_cycle c symbol lower_price upper_price grid_levels
           quantity_per_grid s))) = placements (snd s)"
proof -
  have "missing_of_cycle lower_price upper_price grid_levels current_price open2 = ([], [])"
  proof (rule missing_of_cycle_filled [OF sub])
    show "\<forall>p \<in> set (fst (missing_of_cycle lower_price upper_price grid_levels
              current_price open1)).
            \<exists>ord \<in> set open2. ord_side ord = ''BUY'' \<and> py_round2 (ord_price ord) = p"
      using buys missing_prices_rounded by metis
    show "\<forall>p \<in> set (snd (missing_of_cycle lower_price upper_price grid_levels
              current_price open1)).
            \<exists>ord \<in> set open2. ord_side ord = ''SELL'' \<and> py_round2 (ord_price ord) = p"
      using sells missing_prices_rounded by metis
  qed
  with monitor_cycle_nothing_missing [OF price orders] show ?thesis
    by simp
qed

theorem reconcile_idempotent_witness:
  "missing_of_cycle 44000 46000 5 45000 grid_book = ([], []) \<and>
   placements (snd (snd (monitor_cycle (paper_exchange 45000) ''BTCUSDT'' 44000 46000 5
     (1 / 100) (grid_book, [])))) = [] \<and>
   length (placements (snd (snd (monitor_and_rebalance_grid (paper_exchange 45000)
      ''BTCUSDT'' 44000 46000 5 (1 / 100) 30 1 ([], []))))) = 4 \<and>
   length (placements (snd (snd (monitor_and_rebalance_grid (paper_exchange 45000)
      ''BTCUSDT'' 44000 46000 5 (1 / 100) 30 2 ([], []))))) = 4 \<and>
   fst (snd (monitor_and_rebalance_grid (paper_exchange 45000)
      ''BTCUSDT'' 44000 46000 5 (1 / 100) 30 1 ([], []))) = grid_book"
  using reconcile_idempotent [OF _ book_buys book_sells book_price book_orders,
      of "1 / 100"] two_cycles_on_paper
  by (simp add: placements_simps)

section \<open>TWAP: what the returned list records\<close>

lemma successes_simps:
  "successes [] = []" "successes (r # rs) = success_of r @ successes rs"
  by (simp_all add: successes_def)

lemma twap_loop_outcomes:
  "list_all survivable (slice_outcomes c symbol side order_size interval num ps ul off levels s)
   \<Longrightarrow>
   fst (twap_loop c symbol side order_size interval num ps ul off levels executed s) =
     Inr (executed @ successes (slice_outcomes c symbol side order_size interval num ps ul off
                                  levels s)) \<and>
   length (slice_outcomes c symbol side order_size interval num ps ul off levels s) =
     length levels"
proof (induction levels arbitrary: executed s)
  case Nil
  then show ?case by (simp add: successes_simps)
next
  case (Cons i rest)
  obtain r s1 where slice: "twap_slice c symbol side order_size ps ul off s = (r, s1)"
    by (cases "twap_slice c symbol side order_size ps ul off s")
  show ?case
  proof (cases r)
    case (Inr ord)
    with Cons.prems slice
    have "list_all survivable (slice_outcomes c symbol side order_size interval num ps ul off
            rest (if int i < num - 1 then sleep interval s1 else s1))"
      by simp
    from Cons.IH [OF this, of "executed @ [ord]"] slice Inr show ?thesis
      by (simp add: successes_simps)
  next
    case (Inl e)
    show ?thesis
    proof (cases e)
      case (BinanceAPIException code)
      with Cons.prems slice Inl
      have "list_all survivable (slice_outcomes c symbol side order_size interval num ps ul off
              rest s1)"
        by simp
      from Cons.IH [OF this, of executed] slice Inl BinanceAPIException show ?thesis
        by (simp add: successes_simps)
    qed (use Cons.prems slice Inl in simp_all)
  qed
qed


lemma rejected_second_outcomes:
  "slice_outcomes (rejecting_exchange 45000 [1]) (upper ''BTCUSDT'') (upper ''sell'')
     ((3 / 100) / of_int 3) (of_int (3 * 60) / of_int 3) 3 (upper ''both'') True (1 / 10)
     (py_range 3) (0, []) =
   [Inr ((placed_order 0 (twap_limit_req ''BTCUSDT'' ''SELL'' (1 / 100) 44955 ''BOTH''))
           \<lparr>status := ''FILLED'', executedQty := StrNum (1 / 100), avgPrice := StrNum 45000\<rparr>),
    Inl (BinanceAPIException (- 2010)),
    Inr ((placed_order 2 (twap_limit_req ''BTCUSDT'' ''SELL'' (1 / 100) 44955 ''BOTH''))
           \<lparr>status := ''FILLED'', executedQty := StrNum (1 / 100), avgPrice := StrNum 45000\<rparr>)]"
  by code_simp

lemma valid_sell: "validate_order_params ''BTCUSDT'' ''sell'' (3 / 100) None"
  by code_simp

text \<open>
  C3, as the code has it. In a run of \<open>execute_twap\<close> on a valid plan in which no
  slice raises anything but a \<open>BinanceAPIException\<close>, every one of the
  \<open>num_orders\<close> slices is attempted, whatever failed before it, and the list the run
  returns holds exactly the responses of the slices that succeeded, in order: a failed
  slice is logged and leaves no entry.
\<close>

theorem twap_ledger_holds_successes:
  assumes valid: "validate_order_params symbol side total_quantity None"
    and orders: "1 \<le> num_orders" and minutes: "1 \<le> duration_minutes"
    and caught: "list_all survivable
           (slice_outcomes c (upper symbol) (upper side) (total_quantity / of_int num_orders)
              (of_int (duration_minutes * 60) / of_int num_orders) num_orders
              (upper position_side) use_limit limit_offset_pct (py_range num_orders) s)"
  shows "fst (execute_twap c symbol side total_quantity duration_minutes num_orders
                position_side use_limit limit_offset_pct s) =
           Inr (successes
             (slice_outcomes c (upper symbol) (upper side) (total_quantity / of_int num_orders)
                (of_int (duration_minutes * 60) / of_int num_orders) num_orders
                (upper position_side) use_limit limit_offset_pct (py_range num_orders) s)) \<and>
         length
           (slice_outcomes c (upper symbol) (upper side) (total_quantity / of_int num_orders)
              (of_int (duration_minutes * 60) / of_int num_orders) num_orders
              (upper position_side) use_limit limit_offset_pct (py_range num_orders) s) =
           nat num_orders"
  using twap_loop_outcomes [OF caught, of "[]"] valid orders minutes
  by (simp add: execute_twap_def Let_def py_range_def)

theorem twap_ledger_holds_successes_witness:
  "fst (execute_twap (rejecting_exchange 45000 [1]) ''BTCUSDT'' ''sell'' (3 / 100) 3 3 ''both''
          True (1 / 10) (0, [])) =
     Inr [(placed_order 0 (twap_limit_req ''BTCUSDT'' ''SELL'' (1 / 100) 44955 ''BOTH''))
            \<lparr>status := ''FILLED'', executedQty := StrNum (1 / 100), avgPrice := StrNum 45000\<rparr>,
          (placed_order 2 (twap_limit_req ''BTCUSDT'' ''SELL'' (1 / 100) 44955 ''BOTH''))
            \<lparr>status := ''FILLED'', executedQty := StrNum (1 / 100), avgPrice := StrNum 45000\<rparr>] \<and>
   length (slice_outcomes (rejecting_exchange 45000 [1]) (upper ''BTCUSDT'') (upper ''sell'')
     ((3 / 100) / of_int 3) (of_int (3 * 60) / of_int 3) 3 (upper ''both'') True (1 / 10)
     (py_range 3) (0, [])) = 3"
proof -
  have caught: "list_all survivable
      (slice_outcomes (rejecting_exchange 45000 [1]) (upper ''BTCUSDT'') (upper ''sell'')
         ((3 / 100) / of_int 3) (of_int (3 * 60) / of_int 3) 3 (upper ''both'') True (1 / 10)
         (py_range 3) (0, []))"
    unfolding rejected_second_outcomes by simp
  from twap_ledger_holds_successes [OF valid_sell _ _ caught]
  show ?thesis
    unfolding rejected_second_outcomes by (simp add: successes_simps)
qed

text \<open>
  The claim as stated fails: with the second of three placements rejected, all three
  slices are attempted and the returned list has two entries, none for the failure.
\<close>

theorem twap_failed_slice_unrecorded_counterexample:
  "map orderId (case fst (execute_twap (rejecting_exchange 45000 [1]) ''BTCUSDT'' ''sell''
                        (3 / 100) 3 3 ''both'' True (1 / 10) (0, [])) of
                  Inr executed_orders \<Rightarrow> executed_orders
                | Inl e \<Rightarrow> []) = [0, 2] \<and>
   length (placements (snd (snd (execute_twap (rejecting_exchange 45000 [1]) ''BTCUSDT''
      ''sell'' (3 / 100) 3 3 ''both'' True (1 / 10) (0, []))))) = 3"
  by code_simp

section \<open>TWAP: slice size and interval\<close>











section \<open>TWAP: the summary\<close>

lemma get_twap_summary_returns: "\<exists>m. get_twap_summary orders = Inr m"
  by (simp add: get_twap_summary_def Let_def py_div_def)

lemma get_twap_summary_empty: "get_twap_summary [] = Inr Map.empty"
  by (simp add: get_twap_summary_def)

lemma summary_zero_filled:
  assumes "orders \<noteq> []" "total_filled orders = 0"
  shows "summary_field orders ''total_orders'' = Some (of_nat (length orders)) \<and>
         summary_field orders ''total_quantity'' = Some 0 \<and>
         summary_field orders ''average_price'' = Some 0 \<and>
         summary_field orders ''price_range_pct'' = Some 0 \<and>
         summary_field orders ''min_price'' \<noteq> None \<and>
         summary_field orders ''max_price'' \<noteq> None"
  using assms
  by (simp add: summary_field_def get_twap_summary_def total_filled_def Let_def py_div_def)

lemma unfilled_total: "unfilled_ledger \<noteq> [] \<and> total_filled unfilled_ledger = 0"
  by code_simp

lemma unfilled_min_max:
  "summary_field unfilled_ledger ''min_price'' = Some 0 \<and>
   summary_field unfilled_ledger ''max_price'' = Some 0"
  by code_simp

lemma summary_all_fields:
  assumes "orders \<noteq> []"
  shows "\<forall>k \<in> set [''total_orders'', ''total_quantity'', ''average_price'', ''min_price'',
                   ''max_price'', ''price_range_pct'']. summary_field orders k \<noteq> None"
  using assms
  by (simp add: summary_field_def get_twap_summary_def Let_def py_div_def)

text \<open>
  C4, as the code has it. The summary of an empty ledger is the empty dictionary: none
  of its fields is present. The summary of a non-empty ledger has all six fields. No
  ledger makes the summary divide by zero: it always returns a dictionary; and for a
  non-empty ledger whose total filled quantity is zero, \<open>total_quantity\<close>,
  \<open>average_price\<close> and \<open>price_range_pct\<close> are zero.
\<close>

theorem twap_summary_empty_and_zero_filled:
  "get_twap_summary [] = Inr Map.empty \<and>
   (\<forall>k. summary_field [] k = None) \<and>
   get_twap_summary orders \<noteq> Inl ZeroDivisionError \<and>
   (\<exists>m. get_twap_summary orders = Inr m) \<and>
   (orders \<noteq> [] \<longrightarrow>
      (\<forall>k \<in> set [''total_orders'', ''total_quantity'', ''average_price'', ''min_price'',
                    ''max_price'', ''price_range_pct'']. summary_field orders k \<noteq> None)) \<and>
   (orders \<noteq> [] \<longrightarrow> total_filled orders = 0 \<longrightarrow>
      summary_field orders ''total_orders'' = Some (of_nat (length orders)) \<and>
      summary_field orders ''total_quantity'' = Some 0 \<and>
      summary_field orders ''average_price'' = Some 0 \<and>
      summary_field orders ''price_range_pct'' = Some 0)"
proof -
  have "\<forall>k. summary_field [] k = None"
    by (simp add: summary_field_def get_twap_summary_empty)
  moreover from get_twap_summary_returns [of orders]
  have "get_twap_summary orders \<noteq> Inl ZeroDivisionError"
    by auto
  ultimately show ?thesis
    using get_twap_summary_empty get_twap_summary_returns [of orders]
      summary_all_fields [of orders] summary_zero_filled [of orders]
    by blast
qed

theorem twap_summary_empty_and_zero_filled_witness:
  "get_twap_summary unfilled_ledger \<noteq> Inl ZeroDivisionError \<and>
   summary_field unfilled_ledger ''total_orders'' = Some 2 \<and>
   summary_field unfilled_ledger ''total_quantity'' = Some 0 \<and>
   summary_field unfilled_ledger ''average_price'' = Some 0 \<and>
   summary_field unfilled_ledger ''price_range_pct'' = Some 0 \<and>
   summary_field unfilled_ledger ''min_price'' = Some 0 \<and>
   summary_field unfilled_ledger ''max_price'' = Some 0"
proof -
  have "length unfilled_ledger = 2"
    by (simp add: unfilled_ledger_def)
  with twap_summary_empty_and_zero_filled [of unfilled_ledger] unfilled_total
    unfilled_min_max
  show ?thesis by simp
qed

text \<open>
  The claim as stated fails on the empty ledger: its summary is the empty dictionary,
  not a summary of six zero fields.
\<close>

theorem twap_summary_empty_counterexample:
  "get_twap_summary [] = Inr Map.empty \<and>
   summary_field [] ''total_orders'' = None \<and>
   summary_field [] ''total_quantity'' = None \<and>
   summary_field [] ''average_price'' = None \<and>
   summary_field [] ''min_price'' = None \<and>
   summary_field [] ''max_price'' = None \<and>
   summary_field [] ''price_range_pct'' = None"
  by (simp add: summary_field_def get_twap_summary_empty)

section \<open>OCO: the stop-loss price is not validated\<close>

lemma place_oco_order_invalid:
  "\<not> validate_order_params symbol side quantity (Some take_profit_price) \<Longrightarrow>
   place_oco_order c symbol side quantity take_profit_price stop_loss_price position_side s =
     (Inl (ValueError ''Invalid order parameters''), s)"
  by (simp add: place_oco_order_def)

lemma place_oco_order_stop_sent:
  assumes valid: "validate_order_params symbol side quantity (Some take_profit_price)"
    and price: "get_current_price c (upper symbol) s = (Inr current_price, s1)"
    and tp: "call_create_order c
               (take_profit_req (upper symbol) (upper side) quantity take_profit_price
                  (upper position_side)) s1 = (Inr tp_order, s2)"
  shows "snd (snd (place_oco_order c symbol side quantity take_profit_price stop_loss_price
                     position_side s)) =
           snd s2 @
           [Sleep (1 / 10),
            CreateOrder (stop_loss_req (upper symbol) (upper side) quantity stop_loss_price
                           (upper position_side))]"
proof -
  let ?req = "stop_loss_req (upper symbol) (upper side) quantity stop_loss_price
                (upper position_side)"
  obtain r s3 where sl: "call_create_order c ?req (sleep (1 / 10) s2) = (r, s3)"
    by (cases "call_create_order c ?req (sleep (1 / 10) s2)")
  from trace_call_create_order [OF sl]
  have "snd s3 = snd s2 @ [Sleep (1 / 10), CreateOrder ?req]"
    by (simp add: trace_sleep)
  with valid price tp sl show ?thesis
    by (cases r) (simp_all add: place_oco_order_def)
qed

lemma valid_oco: "validate_order_params ''BTCUSDT'' ''sell'' (1 / 100) (Some 46000)"
  by code_simp

lemma oco_take_profit_placed:
  "call_create_order (paper_exchange 45000)
     (take_profit_req (upper ''BTCUSDT'') (upper ''sell'') (1 / 100) 46000 (upper ''both''))
     ([], [Ticker ''BTCUSDT'']) =
   (Inr (placed_order 0 (take_profit_req ''BTCUSDT'' ''SELL'' (1 / 100) 46000 ''BOTH'')),
    ([placed_order 0 (take_profit_req ''BTCUSDT'' ''SELL'' (1 / 100) 46000 ''BOTH'')],
     [Ticker ''BTCUSDT'',
      CreateOrder (take_profit_req ''BTCUSDT'' ''SELL'' (1 / 100) 46000 ''BOTH'')]))"
  by code_simp

text \<open>
  C9. \<open>place_oco_order\<close> hands the symbol, the side, the quantity and the take-profit
  price to the validation, and nothing else: when these are invalid it raises the
  validation error before any call, whatever the stop-loss price; when they are valid,
  the price fetch returns and the take-profit order is accepted, it sends the
  \<open>STOP_MARKET\<close> request with \<open>stopPrice\<close> equal to the stop-loss price it was given,
  whatever that price is, be it below \<open>MIN_PRICE\<close>, zero or negative.
\<close>

theorem stop_loss_price_unchecked:
  "(\<not> validate_order_params symbol side quantity (Some take_profit_price) \<longrightarrow>
      place_oco_order c symbol side quantity take_profit_price stop_loss_price position_side s =
        (Inl (ValueError ''Invalid order parameters''), s)) \<and>
   (validate_order_params symbol side quantity (Some take_profit_price) \<longrightarrow>
    get_current_price c (upper symbol) s = (Inr current_price, s1) \<longrightarrow>
    call_create_order c
      (take_profit_req (upper symbol) (upper side) quantity take_profit_price
         (upper position_side)) s1 = (Inr tp_order, s2) \<longrightarrow>
      snd (snd (place_oco_order c symbol side quantity take_profit_price stop_loss_price
                  position_side s)) =
        snd s2 @
        [Sleep (1 / 10),
         CreateOrder (stop_loss_req (upper symbol) (upper side) quantity stop_loss_price
                        (upper position_side))] \<and>
      req_stopPrice (stop_loss_req (upper symbol) (upper side) quantity stop_loss_price
                       (upper position_side)) = Some stop_loss_price)"
proof (intro conjI impI)
  assume "\<not> validate_order_params symbol side quantity (Some take_profit_price)"
  then show "place_oco_order c symbol side quantity take_profit_price stop_loss_price
               position_side s = (Inl (ValueError ''Invalid order parameters''), s)"
    by (rule place_oco_order_invalid)
next
  assume "validate_order_params symbol side quantity (Some take_profit_price)"
    and "get_current_price c (upper symbol) s = (Inr current_price, s1)"
    and "call_create_order c
           (take_profit_req (upper symbol) (upper side) quantity take_profit_price
              (upper position_side)) s1 = (Inr tp_order, s2)"
  then show "snd (snd (place_oco_order c symbol side quantity take_profit_price
                         stop_loss_price position_side s)) =
               snd s2 @
               [Sleep (1 / 10),
                CreateOrder (stop_loss_req (upper symbol) (upper side) quantity
                               stop_loss_price (upper position_side))]"
    by (rule place_oco_order_stop_sent)
next
  show "req_stopPrice (stop_loss_req (upper symbol) (upper side) quantity stop_loss_price
                         (upper position_side)) = Some stop_loss_price"
    by (simp add: stop_loss_req_def)
qed

theorem stop_loss_price_unchecked_witness:
  "\<not> validate_price (- 5) \<and>
   placements (snd (snd (place_oco_order (paper_exchange 45000) ''BTCUSDT'' ''sell'' (1 / 100)
      46000 (- 5) ''both'' ([], [])))) =
     [take_profit_req ''BTCUSDT'' ''SELL'' (1 / 100) 46000 ''BOTH'',
      stop_loss_req ''BTCUSDT'' ''SELL'' (1 / 100) (- 5) ''BOTH''] \<and>
   req_stopPrice (stop_loss_req ''BTCUSDT'' ''SELL'' (1 / 100) (- 5) ''BOTH'') = Some (- 5) \<and>
   place_oco_order (paper_exchange 45000) ''BTCUSDT'' ''sell'' (1 / 100000) 46000 (- 5)
     ''both'' ([], []) = (Inl (ValueError ''Invalid order parameters''), ([], []))"
proof -
  have up: "upper ''BTCUSDT'' = ''BTCUSDT''" "upper ''sell'' = ''SELL''"
      "upper ''both'' = ''BOTH''"
    by (simp_all add: upper_def upper_char_def)
  have low: "\<not> validate_price (- 5)"
    by (simp add: validate_price_def MIN_PRICE_def)
  have tiny: "\<not> validate_order_params ''BTCUSDT'' ''sell'' (1 / 100000) (Some 46000)"
    by code_simp
  note sent = stop_loss_price_unchecked [where symbol = "''BTCUSDT''" and side = "''sell''"
      and quantity = "1 / 100" and take_profit_price = 46000 and stop_loss_price = "- 5"
      and position_side = "''both''" and c = "paper_exchange 45000" and s = "([], [])",
      THEN conjunct2, rule_format, OF valid_oco scenario_price oco_take_profit_placed]
  note refused = stop_loss_price_unchecked [where symbol = "''BTCUSDT''" and side = "''sell''"
      and quantity = "1 / 100000" and take_profit_price = 46000 and stop_loss_price = "- 5"
      and position_side = "''both''" and c = "paper_exchange 45000" and s = "([], [])",
      THEN conjunct1, rule_format, OF tiny]
  from sent refused low
  show ?thesis
    by (simp add: up placements_simps stop_loss_req_def)
qed

section \<open>OCO: a rejected cancel\<close>

text \<open>
  C7 on the exchange where the take-profit order 1 has filled and the cancel of the
  stop-loss order 2 is rejected: the handler of the check swallows the rejection, every
  later check finds the take-profit order filled again and cancels again, and after the
  three checks allowed the monitor returns \<open>None\<close>, not \<open>'TP'\<close>, having sent three
  cancel calls for order 2.
\<close>

theorem oco_rejected_cancel_repeats:
  "monitor_and_cancel_oco tp_filled_exchange ''BTCUSDT'' 1 2 5 3 ((), []) =
     (Inr None,
      ((), [GetOrder ''BTCUSDT'' 1, GetOrder ''BTCUSDT'' 2, CancelOrder ''BTCUSDT'' 2, Sleep 5,
            GetOrder ''BTCUSDT'' 1, GetOrder ''BTCUSDT'' 2, CancelOrder ''BTCUSDT'' 2, Sleep 5,
            GetOrder ''BTCUSDT'' 1, GetOrder ''BTCUSDT'' 2, CancelOrder ''BTCUSDT'' 2,
            Sleep 5])) \<and>
   cancels (snd (snd (monitor_and_cancel_oco tp_filled_exchange ''BTCUSDT'' 1 2 5 3
     ((), [])))) = [2, 2, 2]"
  by code_simp

end
